theory Spec2Isabelle
  imports Complex_Main "HOL-Library.Multiset" "HOL-Library.Option_ord"
begin

section \<open>Shared JavaScript notions\<close>

text \<open>
  Strings are \<open>string\<close>. An instant is what \<^verbatim>\<open>new Date(x).getTime()\<close> yields: \<open>Some t\<close> for
  the millisecond time value \<open>t\<close> of a valid date, \<open>None\<close> for the NaN of an Invalid Date.
  Parsing a date string is the parameter \<open>dateParse\<close>, which gives \<open>None\<close> for a string that
  is not a date. Reading the clock (\<^verbatim>\<open>new Date()\<close>, \<^verbatim>\<open>Date.now()\<close>) is a parameter as well
  and always gives a valid instant.
\<close>

datatype 'a outcome = Throws | Returns 'a

text \<open>
  \<^verbatim>\<open>xs.sort((a, b) => key(a) - key(b))\<close>, where \<open>key\<close> gives an instant. When no key is NaN the
  comparator is a consistent one and the result is the stable sort by \<open>key\<close> (ECMAScript
  2019); on keys that are all \<open>Some\<close> the order of \<open>int option\<close> is the order of the time
  values. When some key is NaN the comparator yields NaN for every pair with that key, the
  sort takes that as 0, and the order of the result is implementation-defined: it is what
  the parameter \<open>engineOrder\<close> makes of the array.
\<close>

definition sortByTime ::
  "(('a \<Rightarrow> int option) \<Rightarrow> 'a list \<Rightarrow> 'a list) \<Rightarrow> ('a \<Rightarrow> int option) \<Rightarrow> 'a list \<Rightarrow> 'a list" where
  "sortByTime engineOrder key xs =
     (if None \<in> set (map key xs) then engineOrder key xs else sort_key key xs)"

text \<open>A list of instants is in ascending order: all are valid and none is later than
  its successor.\<close>

definition ascending :: "int option list \<Rightarrow> bool" where
  "ascending ks = (None \<notin> set ks \<and> sorted ks)"

text \<open>An engine whose sort only moves the elements of the array around, whatever the
  comparator does.\<close>

definition reorders :: "(('a \<Rightarrow> int option) \<Rightarrow> 'a list \<Rightarrow> 'a list) \<Rightarrow> bool" where
  "reorders engineOrder = (\<forall>key xs. mset (engineOrder key xs) = mset xs)"

text \<open>\<^verbatim>\<open>String.prototype.trim\<close>: the white space and line terminators among the characters
  a \<open>char\<close> can hold are TAB, LF, VT, FF, CR, SPACE and NBSP.\<close>

definition js_whitespace :: "char \<Rightarrow> bool" where
  "js_whitespace c =
     (c \<in> set [CHR 0x09, CHR 0x0A, CHR 0x0B, CHR 0x0C, CHR 0x0D, CHR 0x20, CHR 0xA0])"

definition trim :: "string \<Rightarrow> string" where
  "trim s = rev (dropWhile js_whitespace (rev (dropWhile js_whitespace s)))"


section \<open>The chat panel: merging realtime messages\<close>

datatype msg_role = RoleUser | RoleAssistant | RoleTool

datatype msg_source = TelegramUser | Micromanager | RealtimeAgent

record msg_metadata =
  tokensUsed :: "int option"
  reasoning :: "string option"
  meta_error :: "bool option"

text \<open>\<^verbatim>\<open>StoredMessage\<close>; the \<^verbatim>\<open>type\<close> field is the constant \<^verbatim>\<open>"text"\<close> and is left out.
  \<open>msg_createdAt\<close> and \<open>msg_updatedAt\<close> hold the instant of the date (or date string) of the
  field, which is what the comparator of the merge reads.\<close>

record stored_message =
  msg_id :: "string option"
  msg_userId :: string
  msg_role :: msg_role
  msg_content :: string
  msg_createdAt :: "int option"
  msg_updatedAt :: "int option"
  msg_source :: msg_source
  msg_metadata :: "msg_metadata option"

text \<open>\<^verbatim>\<open>ChatMessage\<close>, with the four fields that \<^verbatim>\<open>handleRealtimeMessages\<close> reads.\<close>

record chat_message =
  chat_id :: "string option"
  chat_role :: msg_role
  chat_content :: string
  chat_createdAt :: "string option"

text \<open>Truthiness of an identity: \<^verbatim>\<open>undefined\<close> and \<^verbatim>\<open>""\<close> are falsy.\<close>

definition truthy_id :: "string option \<Rightarrow> bool" where
  "truthy_id i = (case i of None \<Rightarrow> False | Some s \<Rightarrow> s \<noteq> [])"

text \<open>\<^verbatim>\<open>xs.map((msg) => msg.id).filter(Boolean)\<close>\<close>

definition truthyIds :: "stored_message list \<Rightarrow> string option list" where
  "truthyIds xs = filter truthy_id (map msg_id xs)"

text \<open>The body of \<^verbatim>\<open>incoming.map<StoredMessage>(...)\<close>; \<open>t\<close> is the clock reading taken
  for this message when it carries no creation time
  (\<^verbatim>\<open>new Date(new Date().toISOString())\<close> has the time value of \<^verbatim>\<open>new Date()\<close>). A creation
  time that does not parse gives an Invalid Date.\<close>

definition toStored ::
  "string \<Rightarrow> (string \<Rightarrow> int option) \<Rightarrow> int \<Rightarrow> chat_message \<Rightarrow> stored_message" where
  "toStored userId dateParse t message =
     (let createdDate =
            (case chat_createdAt message of
               None \<Rightarrow> Some t
             | Some createdAtIso \<Rightarrow> dateParse createdAtIso)
      in \<lparr> msg_id = chat_id message,
           msg_userId = userId,
           msg_role = chat_role message,
           msg_content = chat_content message,
           msg_createdAt = createdDate,
           msg_updatedAt = createdDate,
           msg_source =
             (if chat_role message = RoleAssistant \<or> chat_role message = RoleTool
              then RealtimeAgent else TelegramUser),
           msg_metadata = None \<rparr>)"

text \<open>\<open>clock i\<close> is the clock reading while the \<open>i\<close>-th incoming message is mapped.\<close>

definition mapIncoming ::
  "string \<Rightarrow> (string \<Rightarrow> int option) \<Rightarrow> (nat \<Rightarrow> int) \<Rightarrow> chat_message list
     \<Rightarrow> stored_message list" where
  "mapIncoming userId dateParse clock incoming =
     map (\<lambda>(i, message). toStored userId dateParse (clock i) message) (enumerate 0 incoming)"

text \<open>\<^verbatim>\<open>mapped.filter((msg) => !msg.id || !existingIds.has(msg.id))\<close>\<close>

definition dedupe :: "stored_message list \<Rightarrow> stored_message list \<Rightarrow> stored_message list" where
  "dedupe prev mapped =
     filter (\<lambda>msg. \<not> truthy_id (msg_id msg) \<or> msg_id msg \<notin> set (truthyIds prev)) mapped"

text \<open>\<^verbatim>\<open>handleRealtimeMessages\<close> as a function from the message list before the call to the
  message list after it.\<close>

definition handleRealtimeMessages ::
  "((stored_message \<Rightarrow> int option) \<Rightarrow> stored_message list \<Rightarrow> stored_message list)
     \<Rightarrow> string \<Rightarrow> (string \<Rightarrow> int option) \<Rightarrow> (nat \<Rightarrow> int)
     \<Rightarrow> stored_message list \<Rightarrow> chat_message list \<Rightarrow> stored_message list" where
  "handleRealtimeMessages engineOrder userId dateParse clock prev incoming =
     (if incoming = [] then prev
      else
        let mapped = mapIncoming userId dateParse clock incoming;
            deduped = dedupe prev mapped
        in if deduped = [] then prev
           else sortByTime engineOrder msg_createdAt (prev @ deduped))"

text \<open>An incoming message, once mapped, carries a non-empty identity that a message of the
  current list carries.\<close>

definition alreadyPresent :: "stored_message list \<Rightarrow> stored_message \<Rightarrow> bool" where
  "alreadyPresent prev m = (truthy_id (msg_id m) \<and> msg_id m \<in> msg_id ` set prev)"


section \<open>The chat ingress handler: \<^verbatim>\<open>POST /api/telegram/chat\<close>\<close>

text \<open>A parsed JSON value. A number is the real that the parsed double stands for.\<close>

datatype json =
    JNull
  | JBool bool
  | JNum real
  | JStr string
  | JArr "json list"
  | JObj "(string \<times> json) list"

text \<open>Reading the property \<open>k\<close> of a parsed value, as the destructuring
  \<^verbatim>\<open>const { message, userId } = value\<close> does: \<open>None\<close> is \<^verbatim>\<open>undefined\<close>. In a parsed
  object the last of several equal keys is the one that counts; a boolean, a number,
  a string and an array have neither property. (Destructuring \<^verbatim>\<open>null\<close> throws, which
  \<open>processMessage\<close> handles before it reads a property.)\<close>

fun json_property :: "json \<Rightarrow> string \<Rightarrow> json option" where
  "json_property (JObj kvs) k = map_of (rev kvs) k"
| "json_property _ k = None"

text \<open>Truthiness of a parsed value.\<close>

fun truthy :: "json \<Rightarrow> bool" where
  "truthy JNull = False"
| "truthy (JBool b) = b"
| "truthy (JNum n) = (n \<noteq> 0)"
| "truthy (JStr s) = (s \<noteq> [])"
| "truthy (JArr xs) = True"
| "truthy (JObj kvs) = True"

text \<open>\<^verbatim>\<open>s.replace(pat, rep)\<close> with a string pattern: the first occurrence is replaced.\<close>

fun replace_first :: "string \<Rightarrow> string \<Rightarrow> string \<Rightarrow> string" where
  "replace_first pat rep [] = (if pat = [] then rep else [])"
| "replace_first pat rep (c # cs) =
     (if take (length pat) (c # cs) = pat then rep @ drop (length pat) (c # cs)
      else c # replace_first pat rep cs)"

text \<open>The argument of \<^verbatim>\<open>insertMessage\<close>. \<open>userId\<close> and \<open>content\<close> are whatever the body
  held; \<^verbatim>\<open>type\<close> is the constant \<^verbatim>\<open>"text"\<close> and is left out.\<close>

record new_message =
  nm_userId :: json
  nm_role :: msg_role
  nm_content :: json
  nm_source :: msg_source
  nm_createdAt :: int
  nm_updatedAt :: int
  nm_metadata_error :: "bool option"

record workflow_input =
  input_as_text :: json
  user_id :: json
  wf_source :: string
  usageTaskType :: string

text \<open>What \<^verbatim>\<open>runWorkflow\<close> resolves to: the text and the optional \<^verbatim>\<open>error\<close> property.\<close>

record workflow_result =
  output_text :: string
  wf_error :: "bool option"

record http_request =
  authorization :: "string option"
  req_json :: "json outcome"

datatype response_body =
    ErrorBody string
  | ChatBody string bool

record http_response =
  resp_status :: nat
  resp_body :: response_body

text \<open>
  The collaborators of the handler, which live outside these sources, are parameters:
  \<^item> \<open>verifyTelegramServerToken token\<close> resolves to a boolean or throws;
  \<^item> \<open>jwtVerify token\<close> (\<^verbatim>\<open>jwtVerify(token, env.JWT_SECRET)\<close>) resolves or throws;
  \<^item> \<open>getUserById userId\<close> resolves (its value is only logged) or throws;
  \<^item> \<open>insertMessage m store\<close> persists \<open>m\<close> and resolves with the new store, or throws
    and leaves the store as it was; \<open>'s\<close> is the state of the message store;
  \<^item> \<open>runWorkflow input\<close> resolves to a result or throws;
  \<^item> \<open>newDate i\<close> is the \<open>i\<close>-th reading of \<^verbatim>\<open>new Date()\<close>.
\<close>

record 's collaborators =
  verifyTelegramServerToken :: "string \<Rightarrow> bool outcome"
  jwtVerify :: "string \<Rightarrow> unit outcome"
  getUserById :: "json \<Rightarrow> unit outcome"
  insertMessage :: "new_message \<Rightarrow> 's \<Rightarrow> 's outcome"
  runWorkflow :: "workflow_input \<Rightarrow> workflow_result outcome"
  newDate :: "nat \<Rightarrow> int"

text \<open>\<^verbatim>\<open>NextResponse.json(body, { status })\<close>\<close>

definition json_response :: "response_body \<Rightarrow> nat \<Rightarrow> http_response" where
  "json_response b code = \<lparr> resp_status = code, resp_body = b \<rparr>"

text \<open>The catch clause of the outer \<^verbatim>\<open>try\<close>.\<close>

definition server_error :: http_response where
  "server_error = json_response (ErrorBody ''Failed to process message'') 500"

definition bad_request :: http_response where
  "bad_request = json_response (ErrorBody ''Message and userId are required'') 400"

text \<open>The token check: \<open>True\<close> when the handler goes on, \<open>False\<close> when it answers
  \<^verbatim>\<open>Invalid token\<close>. A server token that verifies to \<^verbatim>\<open>false\<close> is thrown into the same
  catch clause as one whose verification throws.\<close>

definition tokenValid :: "'s collaborators \<Rightarrow> string \<Rightarrow> bool" where
  "tokenValid env token =
     (case verifyTelegramServerToken env token of
        Returns True \<Rightarrow> True
      | _ \<Rightarrow> (case jwtVerify env token of Returns _ \<Rightarrow> True | Throws \<Rightarrow> False))"

definition userMessage :: "'s collaborators \<Rightarrow> json \<Rightarrow> json \<Rightarrow> new_message" where
  "userMessage env userId message =
     \<lparr> nm_userId = userId, nm_role = RoleUser, nm_content = message,
       nm_source = TelegramUser, nm_createdAt = newDate env 0, nm_updatedAt = newDate env 1,
       nm_metadata_error = None \<rparr>"

definition assistantMessage :: "'s collaborators \<Rightarrow> json \<Rightarrow> string \<Rightarrow> bool \<Rightarrow> new_message" where
  "assistantMessage env userId response hasError =
     \<lparr> nm_userId = userId, nm_role = RoleAssistant, nm_content = JStr response,
       nm_source = Micromanager, nm_createdAt = newDate env 2, nm_updatedAt = newDate env 3,
       nm_metadata_error = (if hasError then Some True else None) \<rparr>"

text \<open>The handler once \<open>message\<close> and \<open>userId\<close> have passed validation: the user lookup,
  the two persists and the workflow between them. Every throw lands in the catch clause,
  which answers and touches the store no more.\<close>

definition forward :: "'s collaborators \<Rightarrow> json \<Rightarrow> json \<Rightarrow> 's \<Rightarrow> http_response \<times> 's" where
  "forward env message userId store =
     (case getUserById env userId of
        Throws \<Rightarrow> (server_error, store)
      | Returns _ \<Rightarrow>
         (case insertMessage env (userMessage env userId message) store of
            Throws \<Rightarrow> (server_error, store)
          | Returns store1 \<Rightarrow>
             (case runWorkflow env
                     \<lparr> input_as_text = message, user_id = userId,
                       wf_source = ''telegram'', usageTaskType = ''chat'' \<rparr> of
                Throws \<Rightarrow> (server_error, store1)
              | Returns workflowResult \<Rightarrow>
                 (let response = output_text workflowResult;
                      hasError = (wf_error workflowResult = Some True)
                  in case insertMessage env
                            (assistantMessage env userId response hasError) store1 of
                       Throws \<Rightarrow> (server_error, store1)
                     | Returns store2 \<Rightarrow>
                         (json_response (ChatBody response hasError) 200, store2)))))"

text \<open>The handler from the parsed body on: \<^verbatim>\<open>if (!message || !userId)\<close>.\<close>

definition processMessage ::
  "'s collaborators \<Rightarrow> json \<Rightarrow> 's \<Rightarrow> http_response \<times> 's" where
  "processMessage env parsed store =
     (if parsed = JNull then (server_error, store)
      else
        (case json_property parsed ''message'' of
           None \<Rightarrow> (bad_request, store)
         | Some message \<Rightarrow>
            (case json_property parsed ''userId'' of
               None \<Rightarrow> (bad_request, store)
             | Some userId \<Rightarrow>
                if \<not> truthy message \<or> \<not> truthy userId then (bad_request, store)
                else forward env message userId store)))"

text \<open>\<^verbatim>\<open>POST\<close>: the response and the message store after the request.\<close>

definition POST :: "'s collaborators \<Rightarrow> http_request \<Rightarrow> 's \<Rightarrow> http_response \<times> 's" where
  "POST env req store =
     (case map_option (replace_first ''Bearer '' []) (authorization req) of
        None \<Rightarrow> (json_response (ErrorBody ''Unauthorized'') 401, store)
      | Some token \<Rightarrow>
         if token = [] then (json_response (ErrorBody ''Unauthorized'') 401, store)
         else if \<not> tokenValid env token
         then (json_response (ErrorBody ''Invalid token'') 401, store)
         else (case req_json req of
                 Throws \<Rightarrow> (server_error, store)
               | Returns parsed \<Rightarrow> processMessage env parsed store))"


section \<open>The chat panel: polling workflow runs and submitting\<close>

datatype tool_status = Pending | Success | Error

record tool_call =
  toolName :: string
  displayTitle :: string
  displayDescription :: "string option"
  arguments :: "(string \<times> json) list"
  result :: "json option"
  tc_status :: tool_status
  tc_error :: "string option"
  duration :: "int option"
  tc_createdAt :: string
  tc_updatedAt :: string

text \<open>A workflow run as the endpoint returns it. The \<^verbatim>\<open>toolCalls\<close> object is held as the list
  of its entries in property enumeration order, so that \<^verbatim>\<open>Object.values\<close> is \<open>map snd\<close>.\<close>

record workflow_run =
  toolCalls :: "(string \<times> tool_call) list option"

text \<open>What one poll observes: \<open>PollFailed\<close> when the fetch throws or the response is not ok,
  otherwise the \<^verbatim>\<open>current\<close> and \<^verbatim>\<open>previous\<close> runs of the response (\<open>None\<close> when absent).\<close>

datatype poll_outcome =
    PollFailed
  | PollOk "workflow_run option" "workflow_run option"

text \<open>\<^verbatim>\<open>pollWorkflowRuns\<close> as a function on the displayed tool-call history. \<open>isLoading\<close> is the
  flag the polling effect was set up with. Copying the ten fields of each call is the
  identity on \<open>tool_call\<close>. The comparator reads \<^verbatim>\<open>new Date(call.createdAt).getTime()\<close>,
  which is \<open>dateParse (tc_createdAt call)\<close>.\<close>

definition pollWorkflowRuns ::
  "((tool_call \<Rightarrow> int option) \<Rightarrow> tool_call list \<Rightarrow> tool_call list)
     \<Rightarrow> (string \<Rightarrow> int option) \<Rightarrow> bool \<Rightarrow> poll_outcome \<Rightarrow> tool_call list \<Rightarrow> tool_call list" where
  "pollWorkflowRuns engineOrder dateParse isLoading outcome toolCallHistory =
     (case outcome of
        PollFailed \<Rightarrow> toolCallHistory
      | PollOk current previous \<Rightarrow>
         (case (if isLoading then current else previous) of
            None \<Rightarrow> toolCallHistory
          | Some workflowToDisplay \<Rightarrow>
             (case toolCalls workflowToDisplay of
                None \<Rightarrow> toolCallHistory
              | Some calls \<Rightarrow>
                 sortByTime engineOrder (\<lambda>call. dateParse (tc_createdAt call))
                   (map snd calls))))"

record chat_panel =
  cp_messages :: "stored_message list"
  cp_input :: string
  cp_isLoading :: bool
  cp_error :: "string option"
  cp_toolCallHistory :: "tool_call list"
  cp_showWorkPlan :: bool

text \<open>The body of the request that \<^verbatim>\<open>handleSubmit\<close> sends to \<^verbatim>\<open>/api/telegram/chat\<close>.\<close>

record chat_request =
  rq_message :: string
  rq_userId :: string

text \<open>\<^verbatim>\<open>Number.prototype.toString\<close> on an integer.\<close>

fun nat_toString :: "nat \<Rightarrow> string" where
  "nat_toString n =
     (if n < 10 then [char_of (48 + n)]
      else nat_toString (n div 10) @ [char_of (48 + n mod 10)])"

definition int_toString :: "int \<Rightarrow> string" where
  "int_toString i = (if i < 0 then CHR ''-'' # nat_toString (nat (- i)) else nat_toString (nat i))"

text \<open>\<^verbatim>\<open>handleSubmit\<close> up to the point where the request is sent: the new state of the panel
  and the request issued, if any. \<open>dateNow\<close> is the reading of \<^verbatim>\<open>Date.now()\<close>, \<open>clock 0\<close>
  and \<open>clock 1\<close> those of \<^verbatim>\<open>new Date()\<close>.\<close>

definition handleSubmit ::
  "string \<Rightarrow> int \<Rightarrow> (nat \<Rightarrow> int) \<Rightarrow> chat_panel \<Rightarrow> chat_panel \<times> chat_request option" where
  "handleSubmit userId dateNow clock st =
     (if trim (cp_input st) = [] \<or> cp_isLoading st then (st, None)
      else
        let sent = \<lparr> msg_id = Some (int_toString dateNow),
                     msg_userId = userId,
                     msg_role = RoleUser,
                     msg_content = trim (cp_input st),
                     msg_createdAt = Some (clock 0),
                     msg_updatedAt = Some (clock 1),
                     msg_source = TelegramUser,
                     msg_metadata = None \<rparr>
        in (st\<lparr> cp_showWorkPlan := False,
                 cp_messages := cp_messages st @ [sent],
                 cp_input := [],
                 cp_isLoading := True,
                 cp_error := None,
                 cp_toolCallHistory := [] \<rparr>,
            Some \<lparr> rq_message = msg_content sent, rq_userId = userId \<rparr>))"


section \<open>The workplan panel\<close>

record calendar_event =
  ev_id :: string
  ev_title :: string
  ev_start :: "string option"
  ev_end :: "string option"
  ev_location :: "string option"
  ev_description :: "string option"

record workplan_entry =
  wp_event :: calendar_event
  wp_status :: string
  wp_steps :: "string list"
  wp_lastGeneratedAt :: "string option"
  wp_role :: "string option"
  wp_error :: "string option"

text \<open>The state of \<^verbatim>\<open>TelegramWorkPlanPanel\<close>. \<open>roleDrafts\<close> is a plain object used as a
  dictionary: a map from its own keys to their strings.\<close>

record workplan_panel =
  workplans :: "workplan_entry list"
  loadingList :: bool
  regenerating :: bool
  selectedId :: "string option"
  panel_error :: "string option"
  roleDrafts :: "string \<rightharpoonup> string"

text \<open>Property names that a plain object inherits from \<^verbatim>\<open>Object.prototype\<close>. Reading one of
  them from an object that has no own property of that name does not give \<^verbatim>\<open>undefined\<close>,
  and assigning a string to an inherited \<^verbatim>\<open>__proto__\<close> changes nothing.\<close>

definition objectPrototypeKeys :: "string list" where
  "objectPrototypeKeys =
     [''constructor'', ''__proto__'', ''hasOwnProperty'', ''isPrototypeOf'',
      ''propertyIsEnumerable'', ''toLocaleString'', ''toString'', ''valueOf'',
      ''__defineGetter__'', ''__defineSetter__'', ''__lookupGetter__'', ''__lookupSetter__'']"

text \<open>\<^verbatim>\<open>typeof obj[k] === "undefined"\<close>\<close>

definition typeof_undefined :: "(string \<rightharpoonup> string) \<Rightarrow> string \<Rightarrow> bool" where
  "typeof_undefined obj k = (obj k = None \<and> k \<notin> set objectPrototypeKeys)"

text \<open>\<^verbatim>\<open>obj[k] = v\<close> for a string \<open>v\<close>\<close>

definition assign :: "(string \<rightharpoonup> string) \<Rightarrow> string \<Rightarrow> string \<Rightarrow> (string \<rightharpoonup> string)" where
  "assign obj k v = (if k = ''__proto__'' \<and> obj k = None then obj else obj(k \<mapsto> v))"

text \<open>Modelled from the spec: \<^verbatim>\<open>normaliseRole\<close> is imported from the workplan panel module,
  which is not among these sources. The spec gives its rule: trim; collapse to absent if
  empty after trim; an absent role stays absent.\<close>

definition normaliseRole :: "string option \<Rightarrow> string option" where
  "normaliseRole role =
     (case role of
        None \<Rightarrow> None
      | Some r \<Rightarrow> if trim r = [] then None else Some (trim r))"

text \<open>\<^verbatim>\<open>item.role?.trim() ?? ""\<close>\<close>

definition seedDraft :: "workplan_entry \<Rightarrow> string" where
  "seedDraft item = (case wp_role item of None \<Rightarrow> [] | Some r \<Rightarrow> trim r)"

text \<open>\<^verbatim>\<open>mocks.reduce((acc, item) => { acc[item.event.id] = ...; return acc; }, {})\<close>\<close>

definition mockDrafts :: "workplan_entry list \<Rightarrow> (string \<rightharpoonup> string)" where
  "mockDrafts mocks =
     foldl (\<lambda>acc item. assign acc (ev_id (wp_event item)) (seedDraft item)) Map.empty mocks"

text \<open>The updater of the non-empty branch: \<^verbatim>\<open>const next = { ...prev }\<close>, then the loop over
  \<open>items\<close>.\<close>

definition seedDrafts :: "workplan_entry list \<Rightarrow> (string \<rightharpoonup> string) \<Rightarrow> (string \<rightharpoonup> string)" where
  "seedDrafts items prev =
     foldl (\<lambda>next item.
              if typeof_undefined next (ev_id (wp_event item))
              then assign next (ev_id (wp_event item)) (seedDraft item)
              else next)
           prev items"

text \<open>\<^verbatim>\<open>xs[0]?.event.id ?? null\<close>\<close>

definition firstEventId :: "workplan_entry list \<Rightarrow> string option" where
  "firstEventId xs = (case xs of [] \<Rightarrow> None | item # _ \<Rightarrow> Some (ev_id (wp_event item)))"

text \<open>What the fetch of \<^verbatim>\<open>/api/workplan\<close> comes to: \<open>FetchFailed\<close> when the fetch rejects, the
  response is not ok or its body does not parse; otherwise the \<^verbatim>\<open>workplans\<close> property of
  the body, \<open>None\<close> when it is absent, where a \<open>None\<close> entry is a \<^verbatim>\<open>null\<close> in the array.\<close>

datatype fetch_outcome =
    FetchFailed
  | FetchOk "workplan_entry option list option"

text \<open>\<^verbatim>\<open>(data.workplans ?? []).filter(Boolean)\<close>\<close>

definition fetchedItems :: "workplan_entry option list option \<Rightarrow> workplan_entry list" where
  "fetchedItems data = (case data of None \<Rightarrow> [] | Some xs \<Rightarrow> List.map_filter (\<lambda>x. x) xs)"


definition showMocks :: "workplan_entry list \<Rightarrow> workplan_panel \<Rightarrow> workplan_panel" where
  "showMocks mocks st =
     st\<lparr> workplans := mocks, roleDrafts := mockDrafts mocks, selectedId := firstEventId mocks \<rparr>"

definition load_arrive ::
  "workplan_entry list \<Rightarrow> bool \<Rightarrow> fetch_outcome \<Rightarrow> workplan_panel \<Rightarrow> workplan_panel" where
  "load_arrive mocks cancelled outcome st =
     (if cancelled then st
      else
        (case outcome of
           FetchOk data \<Rightarrow>
             (let items = fetchedItems data
              in if items = [] then showMocks mocks st
                 else st\<lparr> workplans := items,
                          roleDrafts := seedDrafts items (roleDrafts st),
                          selectedId := firstEventId items \<rparr>)
         | FetchFailed \<Rightarrow>
             (showMocks mocks st)
               \<lparr> panel_error := Some ''Failed to load upcoming workplans. Showing examples.'' \<rparr>)
        \<lparr> loadingList := False \<rparr>)"

text \<open>\<^verbatim>\<open>handleRoleChange\<close>\<close>

definition handleRoleChange :: "string \<Rightarrow> string \<Rightarrow> workplan_panel \<Rightarrow> workplan_panel" where
  "handleRoleChange eventId v st =
     st\<lparr> roleDrafts := (roleDrafts st)(eventId \<mapsto> v),
         workplans :=
           map (\<lambda>item. if ev_id (wp_event item) = eventId
                        then item\<lparr> wp_role := normaliseRole (Some v) \<rparr>
                        else item)
               (workplans st) \<rparr>"







section \<open>Example inputs\<close>

definition example_stored :: "string \<Rightarrow> int \<Rightarrow> stored_message" where
  "example_stored i t =
     \<lparr> msg_id = Some i, msg_userId = ''u1'', msg_role = RoleUser, msg_content = ''hi'',
       msg_createdAt = Some t, msg_updatedAt = Some t, msg_source = TelegramUser,
       msg_metadata = None \<rparr>"

definition example_chat :: "string \<Rightarrow> string option \<Rightarrow> chat_message" where
  "example_chat i t =
     \<lparr> chat_id = Some i, chat_role = RoleAssistant, chat_content = ''hello'',
       chat_createdAt = t \<rparr>"

text \<open>Date parsing on the strings of the examples: five ISO date strings with their time
  values; every other string, \<^verbatim>\<open>not a date\<close> among them, is taken for an Invalid Date.\<close>

definition example_dateParse :: "string \<Rightarrow> int option" where
  "example_dateParse =
     map_of [(''1970-01-01T00:00:00.001Z'', 1), (''1970-01-01T00:00:00.002Z'', 2),
             (''1970-01-01T00:00:00.003Z'', 3), (''1970-01-01T00:00:00.005Z'', 5),
             (''1970-01-01T00:00:00.007Z'', 7)]"

text \<open>An engine whose sort leaves the array as it found it when a key is NaN. A sort that
  looks for ascending runs does so on the arrays of the examples: their only descent is
  next to the NaN, where the comparator yields NaN, which counts as 0.\<close>

definition example_engineOrder :: "('a \<Rightarrow> int option) \<Rightarrow> 'a list \<Rightarrow> 'a list" where
  "example_engineOrder key xs = xs"

text \<open>Collaborators over a message store that is the list of persisted messages: the server
  secret and the user token are fixed strings, and the workflow throws.\<close>

definition example_collaborators :: "new_message list collaborators" where
  "example_collaborators =
     \<lparr> verifyTelegramServerToken =
         (\<lambda>t. if t = ''server-secret'' then Returns True else Returns False),
       jwtVerify = (\<lambda>t. if t = ''user-jwt'' then Returns () else Throws),
       getUserById = (\<lambda>u. Returns ()),
       insertMessage = (\<lambda>m store. Returns (store @ [m])),
       runWorkflow = (\<lambda>i. Throws),
       newDate = (\<lambda>i. 1000 + int i) \<rparr>"

definition example_request :: "string \<Rightarrow> json \<Rightarrow> http_request" where
  "example_request header parsed = \<lparr> authorization = Some header, req_json = Returns parsed \<rparr>"

definition example_call :: "string \<Rightarrow> string \<Rightarrow> tool_call" where
  "example_call name t =
     \<lparr> toolName = name, displayTitle = name, displayDescription = None, arguments = [],
       result = None, tc_status = Pending, tc_error = None, duration = None,
       tc_createdAt = t, tc_updatedAt = t \<rparr>"

definition example_chat_panel :: "string \<Rightarrow> bool \<Rightarrow> chat_panel" where
  "example_chat_panel text loading =
     \<lparr> cp_messages = [], cp_input = text, cp_isLoading = loading, cp_error = Some ''earlier'',
       cp_toolCallHistory = [], cp_showWorkPlan = True \<rparr>"

definition example_entry :: "string \<Rightarrow> string option \<Rightarrow> workplan_entry" where
  "example_entry i r =
     \<lparr> wp_event = \<lparr> ev_id = i, ev_title = ''Standup'', ev_start = None, ev_end = None,
                    ev_location = None, ev_description = None \<rparr>,
       wp_status = ''ready'', wp_steps = [''Prepare notes''], wp_lastGeneratedAt = None,
       wp_role = r, wp_error = None \<rparr>"

definition example_panel :: "workplan_entry list \<Rightarrow> (string \<rightharpoonup> string) \<Rightarrow> workplan_panel" where
  "example_panel items drafts =
     \<lparr> workplans = items, loadingList = True, regenerating = False, selectedId = None,
       panel_error = None, roleDrafts = drafts \<rparr>"


section \<open>Properties of sorting by time\<close>

lemma sortByTime_valid:
  "None \<notin> key ` set xs \<Longrightarrow> sortByTime engineOrder key xs = sort_key key xs"
  by (simp add: sortByTime_def)

lemma ascending_sort_key: "None \<notin> key ` set xs \<Longrightarrow> ascending (map key (sort_key key xs))"
  by (simp add: ascending_def)

lemma mset_sortByTime:
  "reorders engineOrder \<or> None \<notin> key ` set xs \<Longrightarrow> mset (sortByTime engineOrder key xs) = mset xs"
  by (auto simp: sortByTime_def reorders_def)


section \<open>Properties of the merge\<close>

lemma msg_id_toStored: "msg_id (toStored userId dateParse t message) = chat_id message"
  by (simp add: toStored_def Let_def)

lemma map_msg_id_mapIncoming:
  "map msg_id (mapIncoming userId dateParse clock incoming) = map chat_id incoming"
proof -
  have "map msg_id (mapIncoming userId dateParse clock incoming)
      = map (chat_id \<circ> snd) (enumerate 0 incoming)"
    by (simp add: mapIncoming_def msg_id_toStored split_def comp_def)
  also have "\<dots> = map chat_id (map snd (enumerate 0 incoming))"
    by (simp only: map_map)
  finally show ?thesis by simp
qed

lemma truthyIds_mem: "truthy_id i \<Longrightarrow> i \<in> set (truthyIds prev) \<longleftrightarrow> i \<in> msg_id ` set prev"
  by (auto simp: truthyIds_def)

text \<open>The filter of the source, said with the identities of the current list.\<close>

lemma dedupe_filter: "dedupe prev mapped = filter (\<lambda>m. \<not> alreadyPresent prev m) mapped"
  unfolding dedupe_def alreadyPresent_def by (rule filter_cong) (auto simp: truthyIds_mem)

lemma dedupe_empty_iff:
  "dedupe prev mapped = [] \<longleftrightarrow> \<not> (\<exists>m \<in> set mapped. \<not> alreadyPresent prev m)"
  by (simp add: dedupe_filter filter_empty_conv)

lemma dedupe_all_present:
  assumes "\<forall>m \<in> set mapped. truthy_id (msg_id m) \<and> msg_id m \<in> msg_id ` set prev"
  shows "dedupe prev mapped = []"
  using assms by (simp add: dedupe_empty_iff alreadyPresent_def)

lemma truthyIds_append: "truthyIds (xs @ ys) = truthyIds xs @ truthyIds ys"
  by (simp add: truthyIds_def)

lemma distinct_truthyIds_mset:
  assumes "mset xs = mset ys"
  shows "distinct (truthyIds xs) = distinct (truthyIds ys)"
proof -
  have "mset (truthyIds xs) = mset (truthyIds ys)"
    unfolding truthyIds_def mset_filter mset_map using assms by simp
  then show ?thesis by (rule mset_eq_imp_distinct_iff)
qed

lemma truthyIds_dedupe:
  "truthyIds (dedupe prev mapped) = filter (\<lambda>i. i \<notin> set (truthyIds prev)) (truthyIds mapped)"
  by (induction mapped) (auto simp: truthyIds_def dedupe_def)

lemma distinct_truthyIds_merge:
  assumes "distinct (truthyIds prev)" and "distinct (truthyIds mapped)"
  shows "distinct (truthyIds (prev @ dedupe prev mapped))"
  using assms by (auto simp: truthyIds_append truthyIds_dedupe)

lemma truthyIds_mapIncoming:
  "truthyIds (mapIncoming userId dateParse clock incoming) = filter truthy_id (map chat_id incoming)"
  by (simp add: truthyIds_def map_msg_id_mapIncoming)

text \<open>An empty batch maps to an empty list, so the two early returns are one case.\<close>

lemma merge_cases:
  "handleRealtimeMessages engineOrder userId dateParse clock prev incoming =
     (if dedupe prev (mapIncoming userId dateParse clock incoming) = [] then prev
      else sortByTime engineOrder msg_createdAt
             (prev @ dedupe prev (mapIncoming userId dateParse clock incoming)))"
  by (simp add: handleRealtimeMessages_def Let_def mapIncoming_def dedupe_def)

lemma merge_none_kept:
  assumes "\<not> (\<exists>m \<in> set (mapIncoming userId dateParse clock incoming). \<not> alreadyPresent prev m)"
  shows "handleRealtimeMessages engineOrder userId dateParse clock prev incoming = prev"
  using assms by (simp add: merge_cases dedupe_empty_iff)

lemma merge_some_kept:
  assumes "\<exists>m \<in> set (mapIncoming userId dateParse clock incoming). \<not> alreadyPresent prev m"
  shows "handleRealtimeMessages engineOrder userId dateParse clock prev incoming =
           sortByTime engineOrder msg_createdAt
             (prev @ filter (\<lambda>m. \<not> alreadyPresent prev m)
                        (mapIncoming userId dateParse clock incoming))"
proof -
  have "dedupe prev (mapIncoming userId dateParse clock incoming) \<noteq> []"
    using assms by (simp add: dedupe_empty_iff)
  then show ?thesis
    unfolding merge_cases by (simp add: dedupe_filter)
qed

lemma merge_some_kept_valid:
  assumes "\<exists>m \<in> set (mapIncoming userId dateParse clock incoming). \<not> alreadyPresent prev m"
    and "None \<notin> msg_createdAt `
           set (prev @ filter (\<lambda>m. \<not> alreadyPresent prev m)
                         (mapIncoming userId dateParse clock incoming))"
  shows "handleRealtimeMessages engineOrder userId dateParse clock prev incoming =
           sort_key msg_createdAt
             (prev @ filter (\<lambda>m. \<not> alreadyPresent prev m)
                        (mapIncoming userId dateParse clock incoming))"
    and "ascending (map msg_createdAt
           (handleRealtimeMessages engineOrder userId dateParse clock prev incoming))"
  unfolding merge_some_kept [OF assms(1)] sortByTime_valid [OF assms(2)]
  using ascending_sort_key [OF assms(2)] by simp_all

lemma merge_mset:
  assumes "reorders engineOrder
         \<or> None \<notin> msg_createdAt `
             set (prev @ filter (\<lambda>m. \<not> alreadyPresent prev m)
                           (mapIncoming userId dateParse clock incoming))"
  shows "mset (handleRealtimeMessages engineOrder userId dateParse clock prev incoming) =
           mset prev + mset (filter (\<lambda>m. \<not> alreadyPresent prev m)
                               (mapIncoming userId dateParse clock incoming))"
proof (cases "dedupe prev (mapIncoming userId dateParse clock incoming) = []")
  case True
  then show ?thesis by (simp add: merge_cases flip: dedupe_filter)
next
  case False
  then show ?thesis
    using mset_sortByTime [OF assms] by (simp add: merge_cases flip: dedupe_filter)
qed

lemma merge_keeps_unidentified:
  assumes "mset (handleRealtimeMessages engineOrder userId dateParse clock prev incoming) =
           mset prev + mset (filter (\<lambda>m. \<not> alreadyPresent prev m)
                               (mapIncoming userId dateParse clock incoming))"
    and "m \<in> set (mapIncoming userId dateParse clock incoming)" and "\<not> truthy_id (msg_id m)"
  shows "m \<in> set (handleRealtimeMessages engineOrder userId dateParse clock prev incoming)"
proof -
  have "m \<in># mset (handleRealtimeMessages engineOrder userId dateParse clock prev incoming)"
    unfolding assms(1) using assms(2,3) by (simp add: alreadyPresent_def)
  then show ?thesis by simp
qed

lemma merge_distinct:
  assumes "mset (handleRealtimeMessages engineOrder userId dateParse clock prev incoming) =
           mset prev + mset (filter (\<lambda>m. \<not> alreadyPresent prev m)
                               (mapIncoming userId dateParse clock incoming))"
    and "distinct (truthyIds prev)" and "distinct (filter truthy_id (map chat_id incoming))"
  shows "distinct (truthyIds (handleRealtimeMessages engineOrder userId dateParse clock prev incoming))"
proof -
  let ?mapped = "mapIncoming userId dateParse clock incoming"
  have "distinct (truthyIds ?mapped)"
    using assms(3) by (simp add: truthyIds_mapIncoming)
  with assms(2) have "distinct (truthyIds (prev @ dedupe prev ?mapped))"
    by (rule distinct_truthyIds_merge)
  moreover have "mset (handleRealtimeMessages engineOrder userId dateParse clock prev incoming)
      = mset (prev @ dedupe prev ?mapped)"
    using assms(1) by (simp add: dedupe_filter)
  then have "distinct (truthyIds (handleRealtimeMessages engineOrder userId dateParse clock prev incoming))
      = distinct (truthyIds (prev @ dedupe prev ?mapped))"
    by (rule distinct_truthyIds_mset)
  ultimately show ?thesis
    by simp
qed

text \<open>
  C1, as the code has it. Each mapped message carries the identity of the incoming message
  at its position. When no incoming message is kept, the result is the current list as it
  was. When some incoming message is kept and every creation date among the current and
  the kept messages is a valid date, the result is the current list followed by the kept
  messages, stably sorted by creation time, and so in ascending order; with an invalid date
  among them the order is the engine's. A result that is the current list is in ascending
  order when the current list was. Whenever the engine only reorders, or all those dates
  are valid, the result holds every message of the current list and exactly those
  mapped messages that do not carry a non-empty identity found in the current list, so a
  message with no identity, or an empty one, is always kept; and non-empty identities are
  then unique in the result when they were unique in the current list and the non-empty
  identities of the batch are pairwise distinct.
\<close>

theorem merge_keeps_new_sorts_and_preserves_unique:
  "(let mapped = mapIncoming userId dateParse clock incoming;
        kept = filter (\<lambda>m. \<not> alreadyPresent prev m) mapped;
        merged = handleRealtimeMessages engineOrder userId dateParse clock prev incoming
    in map msg_id mapped = map chat_id incoming
       \<and> (kept = [] \<longrightarrow> merged = prev)
       \<and> (kept \<noteq> [] \<longrightarrow> merged = sortByTime engineOrder msg_createdAt (prev @ kept))
       \<and> (kept \<noteq> [] \<and> None \<notin> msg_createdAt ` set (prev @ kept) \<longrightarrow>
            merged = sort_key msg_createdAt (prev @ kept)
            \<and> ascending (map msg_createdAt merged))
       \<and> (kept = [] \<and> ascending (map msg_createdAt prev) \<longrightarrow>
            ascending (map msg_createdAt merged))
       \<and> (reorders engineOrder \<or> None \<notin> msg_createdAt ` set (prev @ kept) \<longrightarrow>
            mset merged = mset prev + mset kept
            \<and> (\<forall>m \<in> set mapped. \<not> truthy_id (msg_id m) \<longrightarrow> m \<in> set merged)
            \<and> (distinct (truthyIds prev) \<and> distinct (filter truthy_id (map chat_id incoming))
                 \<longrightarrow> distinct (truthyIds merged))))"
proof -
  let ?mapped = "mapIncoming userId dateParse clock incoming"
  let ?kept = "filter (\<lambda>m. \<not> alreadyPresent prev m) ?mapped"
  let ?merged = "handleRealtimeMessages engineOrder userId dateParse clock prev incoming"
  have kept_iff: "?kept \<noteq> [] \<longleftrightarrow> (\<exists>m \<in> set ?mapped. \<not> alreadyPresent prev m)"
    by (simp add: filter_empty_conv)
  have ids: "map msg_id ?mapped = map chat_id incoming"
    by (rule map_msg_id_mapIncoming)
  have none: "?merged = prev" if "?kept = []"
    using that kept_iff by (simp add: merge_none_kept)
  have some: "?merged = sortByTime engineOrder msg_createdAt (prev @ ?kept)" if "?kept \<noteq> []"
    using that kept_iff by (simp add: merge_some_kept)
  have valid: "?merged = sort_key msg_createdAt (prev @ ?kept)
               \<and> ascending (map msg_createdAt ?merged)"
    if "?kept \<noteq> []" and "None \<notin> msg_createdAt ` set (prev @ ?kept)"
    using merge_some_kept_valid [of userId dateParse clock incoming prev engineOrder] that kept_iff
    by blast
  have asc: "ascending (map msg_createdAt ?merged)"
    if "?kept = []" and "ascending (map msg_createdAt prev)"
    using that none by simp
  have perm: "mset ?merged = mset prev + mset ?kept"
    if "reorders engineOrder \<or> None \<notin> msg_createdAt ` set (prev @ ?kept)"
    using that by (rule merge_mset)
  have unid: "\<forall>m \<in> set ?mapped. \<not> truthy_id (msg_id m) \<longrightarrow> m \<in> set ?merged"
    if "reorders engineOrder \<or> None \<notin> msg_createdAt ` set (prev @ ?kept)"
    using merge_keeps_unidentified [OF perm [OF that]] by blast
  have dist: "distinct (truthyIds ?merged)"
    if "reorders engineOrder \<or> None \<notin> msg_createdAt ` set (prev @ ?kept)"
      and "distinct (truthyIds prev)" and "distinct (filter truthy_id (map chat_id incoming))"
    using merge_distinct [OF perm [OF that(1)] that(2,3)] .
  show ?thesis
    unfolding Let_def
    using ids none some valid asc perm unid dist by blast
qed

theorem merge_keeps_new_sorts_and_preserves_unique_witness:
  "map msg_createdAt
       (handleRealtimeMessages example_engineOrder ''u1'' example_dateParse (\<lambda>i. 9)
          [example_stored ''a'' 5]
          [example_chat ''a'' None, example_chat ''b'' (Some ''1970-01-01T00:00:00.003Z'')])
     = [Some 3, Some 5]
   \<and> ascending (map msg_createdAt
       (handleRealtimeMessages example_engineOrder ''u1'' example_dateParse (\<lambda>i. 9)
          [example_stored ''a'' 5]
          [example_chat ''a'' None, example_chat ''b'' (Some ''1970-01-01T00:00:00.003Z'')]))
   \<and> distinct (truthyIds
       (handleRealtimeMessages example_engineOrder ''u1'' example_dateParse (\<lambda>i. 9)
          [example_stored ''a'' 5]
          [example_chat ''a'' None, example_chat ''b'' (Some ''1970-01-01T00:00:00.003Z'')]))
   \<and> map msg_id
       (handleRealtimeMessages example_engineOrder ''u1'' example_dateParse (\<lambda>i. 9)
          [example_stored ''a'' 5]
          [example_chat ''a'' None, example_chat ''b'' (Some ''1970-01-01T00:00:00.003Z'')])
     = [Some ''b'', Some ''a'']"
proof -
  let ?incoming = "[example_chat ''a'' None, example_chat ''b'' (Some ''1970-01-01T00:00:00.003Z'')]"
  let ?prev = "[example_stored ''a'' 5]"
  let ?mapped = "mapIncoming ''u1'' example_dateParse (\<lambda>i. 9) ?incoming"
  let ?kept = "filter (\<lambda>m. \<not> alreadyPresent ?prev m) ?mapped"
  let ?merged = "handleRealtimeMessages example_engineOrder ''u1'' example_dateParse (\<lambda>i. 9)
                   ?prev ?incoming"
  have mapped: "?mapped =
      [toStored ''u1'' example_dateParse 9 (example_chat ''a'' None),
       toStored ''u1'' example_dateParse 9 (example_chat ''b'' (Some ''1970-01-01T00:00:00.003Z''))]"
    by (simp add: mapIncoming_def)
  have kept: "?kept =
      [toStored ''u1'' example_dateParse 9 (example_chat ''b'' (Some ''1970-01-01T00:00:00.003Z''))]"
    unfolding mapped
    by (simp add: alreadyPresent_def truthy_id_def toStored_def Let_def example_chat_def
          example_stored_def)
  have valid: "?kept \<noteq> [] \<and> None \<notin> msg_createdAt ` set (?prev @ ?kept)"
    unfolding kept
    by (simp add: toStored_def Let_def example_chat_def example_stored_def example_dateParse_def)
  have ids: "distinct (truthyIds ?prev) \<and> distinct (filter truthy_id (map chat_id ?incoming))"
    by (simp add: truthyIds_def truthy_id_def example_chat_def example_stored_def)
  note claim = merge_keeps_new_sorts_and_preserves_unique
                 [of "''u1''" example_dateParse "\<lambda>i. 9" ?incoming ?prev example_engineOrder,
                  unfolded Let_def]
  from claim valid have sorted: "?merged = sort_key msg_createdAt (?prev @ ?kept)"
    and asc: "ascending (map msg_createdAt ?merged)"
    by blast+
  from claim valid ids have dist: "distinct (truthyIds ?merged)"
    by blast
  have merged: "?merged =
      [toStored ''u1'' example_dateParse 9 (example_chat ''b'' (Some ''1970-01-01T00:00:00.003Z'')),
       example_stored ''a'' 5]"
    unfolding sorted kept
    by (simp add: toStored_def Let_def example_chat_def example_stored_def example_dateParse_def)
  have "map msg_createdAt ?merged = [Some 3, Some 5]" and "map msg_id ?merged = [Some ''b'', Some ''a'']"
    unfolding merged
    by (simp_all add: toStored_def Let_def example_chat_def example_stored_def
          example_dateParse_def)
  with asc dist show ?thesis by simp
qed

text \<open>
  C1, as the claim states it, fails twice. Two incoming messages that share an identity
  unknown to the current list are both kept. A batch of which nothing is kept returns the
  current list as it is, in ascending order or not.
\<close>

theorem merge_not_always_unique_nor_sorted:
  "\<not> distinct (truthyIds
        (handleRealtimeMessages example_engineOrder ''u1'' example_dateParse (\<lambda>i. 9) []
           [example_chat ''a'' None, example_chat ''a'' None]))
   \<and> map msg_createdAt
        (handleRealtimeMessages example_engineOrder ''u1'' example_dateParse (\<lambda>i. 9)
           [example_stored ''a'' 5, example_stored ''b'' 2] [example_chat ''a'' None])
      = [Some 5, Some 2]
   \<and> \<not> ascending (map msg_createdAt
        (handleRealtimeMessages example_engineOrder ''u1'' example_dateParse (\<lambda>i. 9)
           [example_stored ''a'' 5, example_stored ''b'' 2] [example_chat ''a'' None]))"
  by (simp add: handleRealtimeMessages_def sortByTime_def mapIncoming_def dedupe_def
        truthyIds_def truthy_id_def toStored_def example_chat_def example_stored_def
        ascending_def Let_def)

text \<open>
  C6. Merging a batch in which every message carries a non-empty identity that some
  message of the current list already carries returns the current list unchanged.
\<close>

theorem merge_idempotent_on_present_ids:
  assumes "\<forall>m \<in> set incoming. truthy_id (chat_id m) \<and> chat_id m \<in> msg_id ` set prev"
  shows "handleRealtimeMessages engineOrder userId dateParse clock prev incoming = prev"
proof -
  let ?mapped = "mapIncoming userId dateParse clock incoming"
  have ids: "msg_id ` set ?mapped = chat_id ` set incoming"
    using map_msg_id_mapIncoming [of userId dateParse clock incoming]
    by (metis set_map)
  have "\<forall>m \<in> set ?mapped. truthy_id (msg_id m) \<and> msg_id m \<in> msg_id ` set prev"
  proof
    fix m assume "m \<in> set ?mapped"
    then have "msg_id m \<in> chat_id ` set incoming"
      using ids by blast
    then show "truthy_id (msg_id m) \<and> msg_id m \<in> msg_id ` set prev"
      using assms by auto
  qed
  then have "dedupe prev ?mapped = []"
    by (rule dedupe_all_present)
  then show ?thesis
    by (simp add: merge_cases)
qed

theorem merge_idempotent_on_present_ids_witness:
  "handleRealtimeMessages example_engineOrder ''u1'' example_dateParse (\<lambda>i. 9)
      [example_stored ''b'' 7, example_stored ''a'' 5]
      [example_chat ''a'' None, example_chat ''b'' (Some ''1970-01-01T00:00:00.003Z'')]
   = [example_stored ''b'' 7, example_stored ''a'' 5]"
  using merge_idempotent_on_present_ids
          [of "[example_chat ''a'' None, example_chat ''b'' (Some ''1970-01-01T00:00:00.003Z'')]"
              "[example_stored ''b'' 7, example_stored ''a'' 5]"
              example_engineOrder "''u1''" example_dateParse "\<lambda>i. 9"]
  by (simp add: truthy_id_def example_chat_def example_stored_def)


section \<open>Properties of the chat ingress handler\<close>

lemma POST_authenticated:
  assumes "authorization req = Some header"
    and "replace_first ''Bearer '' [] header \<noteq> []"
    and "tokenValid env (replace_first ''Bearer '' [] header)"
  shows "POST env req store =
           (case req_json req of
              Throws \<Rightarrow> (server_error, store)
            | Returns parsed \<Rightarrow> processMessage env parsed store)"
  using assms by (simp add: POST_def)

text \<open>
  C2. A request with no Authorization header, with a header that leaves an empty token, or
  with a token that the server-token verification does not accept (it resolves to false or
  throws) and the user-JWT verification rejects, is answered with status 401, and the
  message store is the one the request found: no \<open>insertMessage\<close> is reached, whatever
  that collaborator would do.
\<close>

theorem unverifiable_token_unauthorized:
  assumes "case authorization req of
             None \<Rightarrow> True
           | Some header \<Rightarrow>
               (let token = replace_first ''Bearer '' [] header
                in token = [] \<or>
                   (verifyTelegramServerToken env token \<noteq> Returns True \<and>
                    jwtVerify env token = Throws))"
  shows "resp_status (fst (POST env req store)) = 401 \<and> snd (POST env req store) = store"
proof (cases "authorization req")
  case None
  then show ?thesis by (simp add: POST_def json_response_def)
next
  case (Some header)
  let ?token = "replace_first ''Bearer '' [] header"
  show ?thesis
  proof (cases "?token = []")
    case True
    with Some show ?thesis by (simp add: POST_def json_response_def)
  next
    case False
    with assms Some have "verifyTelegramServerToken env ?token \<noteq> Returns True"
      and "jwtVerify env ?token = Throws"
      by (simp_all add: Let_def)
    then have "\<not> tokenValid env ?token"
      by (auto simp: tokenValid_def split: outcome.splits bool.splits)
    with Some False show ?thesis by (simp add: POST_def json_response_def)
  qed
qed

theorem unverifiable_token_unauthorized_witness:
  "replace_first ''Bearer '' [] ''Bearer forged'' = ''forged''
   \<and> verifyTelegramServerToken example_collaborators ''forged'' \<noteq> Returns True
   \<and> jwtVerify example_collaborators ''forged'' = Throws
   \<and> resp_status (fst (POST example_collaborators
        (example_request ''Bearer forged''
           (JObj [(''message'', JStr ''hi''), (''userId'', JStr ''u1'')])) [])) = 401
   \<and> snd (POST example_collaborators
        (example_request ''Bearer forged''
           (JObj [(''message'', JStr ''hi''), (''userId'', JStr ''u1'')])) []) = []"
  using unverifiable_token_unauthorized
          [where env = example_collaborators and store = "[]"
             and req = "example_request ''Bearer forged''
                          (JObj [(''message'', JStr ''hi''), (''userId'', JStr ''u1'')])"]
  by (simp add: example_request_def example_collaborators_def)

text \<open>
  C7, as the claim states it, fails: an authenticated request whose body is \<^verbatim>\<open>null\<close>, or
  does not parse, has neither \<open>message\<close> nor \<open>userId\<close> and is answered with status 500, not
  400.
\<close>

theorem null_or_unparsable_body_is_server_error:
  "resp_status (fst (POST example_collaborators
       (example_request ''Bearer user-jwt'' JNull) [])) = 500
   \<and> resp_status (fst (POST example_collaborators
       \<lparr> authorization = Some ''Bearer user-jwt'', req_json = Throws \<rparr> [])) = 500"
  by (simp add: POST_def processMessage_def tokenValid_def server_error_def json_response_def
        example_request_def example_collaborators_def)

text \<open>
  C7, as the code has it. For an authenticated request: when the body parses to a value
  other than \<^verbatim>\<open>null\<close> in which \<open>message\<close> or \<open>userId\<close> is absent or falsy (the empty string
  among others), the answer has status 400; when the body does not parse, or parses to
  \<^verbatim>\<open>null\<close>, the answer has status 500. In both cases the message store is the one the
  request found.
\<close>

theorem missing_field_bad_request:
  assumes "authorization req = Some header"
    and "replace_first ''Bearer '' [] header \<noteq> []"
    and "tokenValid env (replace_first ''Bearer '' [] header)"
  shows "(\<forall>parsed.
            req_json req = Returns parsed \<and> parsed \<noteq> JNull
            \<and> ((case json_property parsed ''message'' of
                   None \<Rightarrow> True | Some message \<Rightarrow> \<not> truthy message)
               \<or> (case json_property parsed ''userId'' of
                     None \<Rightarrow> True | Some userId \<Rightarrow> \<not> truthy userId))
            \<longrightarrow> resp_status (fst (POST env req store)) = 400 \<and> snd (POST env req store) = store)
       \<and> (req_json req = Throws \<or> req_json req = Returns JNull
            \<longrightarrow> resp_status (fst (POST env req store)) = 500 \<and> snd (POST env req store) = store)"
proof (intro conjI allI impI)
  fix parsed
  assume body: "req_json req = Returns parsed \<and> parsed \<noteq> JNull
            \<and> ((case json_property parsed ''message'' of
                   None \<Rightarrow> True | Some message \<Rightarrow> \<not> truthy message)
               \<or> (case json_property parsed ''userId'' of
                     None \<Rightarrow> True | Some userId \<Rightarrow> \<not> truthy userId))"
  then have "processMessage env parsed store = (bad_request, store)"
    by (auto simp: processMessage_def split: option.splits)
  with body have "POST env req store = (bad_request, store)"
    using POST_authenticated [OF assms] by simp
  then show "resp_status (fst (POST env req store)) = 400"
    and "snd (POST env req store) = store"
    by (simp_all add: bad_request_def json_response_def)
next
  assume "req_json req = Throws \<or> req_json req = Returns JNull"
  then have "POST env req store = (server_error, store)"
    using POST_authenticated [OF assms] by (auto simp: processMessage_def)
  then show "resp_status (fst (POST env req store)) = 500"
    and "snd (POST env req store) = store"
    by (simp_all add: server_error_def json_response_def)
qed

theorem missing_field_bad_request_witness:
  "tokenValid example_collaborators ''user-jwt''
   \<and> json_property (JObj [(''message'', JStr ''hi''), (''userId'', JStr [])]) ''userId''
       = Some (JStr [])
   \<and> resp_status (fst (POST example_collaborators
       (example_request ''Bearer user-jwt''
          (JObj [(''message'', JStr ''hi''), (''userId'', JStr [])])) [])) = 400
   \<and> snd (POST example_collaborators
       (example_request ''Bearer user-jwt''
          (JObj [(''message'', JStr ''hi''), (''userId'', JStr [])])) []) = []
   \<and> resp_status (fst (POST example_collaborators
       (example_request ''Bearer user-jwt'' JNull) [])) = 500
   \<and> snd (POST example_collaborators
       (example_request ''Bearer user-jwt'' JNull) []) = []"
  using missing_field_bad_request
          [where env = example_collaborators and header = "''Bearer user-jwt''" and store = "[]"
             and req = "example_request ''Bearer user-jwt''
                          (JObj [(''message'', JStr ''hi''), (''userId'', JStr [])])"]
        missing_field_bad_request
          [where env = example_collaborators and header = "''Bearer user-jwt''" and store = "[]"
             and req = "example_request ''Bearer user-jwt'' JNull"]
  by (simp add: example_request_def example_collaborators_def tokenValid_def)

text \<open>
  C5. When an authenticated, valid request has had its user message persisted
  (\<open>insertMessage\<close> resolved, leaving the store \<open>store1\<close>) and then the workflow throws, or
  the workflow resolves and persisting the assistant message throws, the handler answers
  with the generic status 500 response and the store it leaves is \<open>store1\<close>: the user
  message stays persisted, nothing is rolled back.
\<close>

theorem failure_after_persist_keeps_user_message:
  assumes "authorization req = Some header"
    and "replace_first ''Bearer '' [] header \<noteq> []"
    and "tokenValid env (replace_first ''Bearer '' [] header)"
    and "req_json req = Returns parsed"
    and "json_property parsed ''message'' = Some message" and "truthy message"
    and "json_property parsed ''userId'' = Some userId" and "truthy userId"
    and "getUserById env userId = Returns ()"
    and "insertMessage env (userMessage env userId message) store = Returns store1"
    and "runWorkflow env \<lparr> input_as_text = message, user_id = userId,
                           wf_source = ''telegram'', usageTaskType = ''chat'' \<rparr> = Throws
       \<or> (\<exists>r. runWorkflow env \<lparr> input_as_text = message, user_id = userId,
                                wf_source = ''telegram'', usageTaskType = ''chat'' \<rparr> = Returns r
              \<and> insertMessage env
                   (assistantMessage env userId (output_text r) (wf_error r = Some True)) store1
                 = Throws)"
  shows "POST env req store =
           (\<lparr> resp_status = 500, resp_body = ErrorBody ''Failed to process message'' \<rparr>, store1)"
proof -
  have "parsed \<noteq> JNull"
    using assms(5) by auto
  then have "processMessage env parsed store = forward env message userId store"
    using assms(5-8) by (simp add: processMessage_def)
  moreover have "forward env message userId store = (server_error, store1)"
    using assms(9-11) by (auto simp: forward_def Let_def)
  ultimately show ?thesis
    using POST_authenticated [OF assms(1-3)] assms(4)
    by (simp add: server_error_def json_response_def)
qed

theorem failure_after_persist_keeps_user_message_witness:
  "insertMessage example_collaborators
       (userMessage example_collaborators (JStr ''u1'') (JStr ''hi'')) []
     = Returns [userMessage example_collaborators (JStr ''u1'') (JStr ''hi'')]
   \<and> runWorkflow example_collaborators
       \<lparr> input_as_text = JStr ''hi'', user_id = JStr ''u1'',
         wf_source = ''telegram'', usageTaskType = ''chat'' \<rparr> = Throws
   \<and> POST example_collaborators
       (example_request ''Bearer user-jwt''
          (JObj [(''message'', JStr ''hi''), (''userId'', JStr ''u1'')])) []
     = (\<lparr> resp_status = 500, resp_body = ErrorBody ''Failed to process message'' \<rparr>,
        [\<lparr> nm_userId = JStr ''u1'', nm_role = RoleUser, nm_content = JStr ''hi'',
           nm_source = TelegramUser, nm_createdAt = 1000, nm_updatedAt = 1001,
           nm_metadata_error = None \<rparr>])"
  using failure_after_persist_keeps_user_message
          [where env = example_collaborators and header = "''Bearer user-jwt''" and store = "[]"
             and req = "example_request ''Bearer user-jwt''
                          (JObj [(''message'', JStr ''hi''), (''userId'', JStr ''u1'')])"
             and parsed = "JObj [(''message'', JStr ''hi''), (''userId'', JStr ''u1'')]"
             and message = "JStr ''hi''" and userId = "JStr ''u1''"
             and ?store1.0 = "[userMessage example_collaborators (JStr ''u1'') (JStr ''hi'')]"]
  by (simp add: example_request_def example_collaborators_def tokenValid_def userMessage_def)


section \<open>Properties of the chat panel\<close>

text \<open>
  C9, as the claim states it, fails when a creation time is not a date: here the third of
  four tool calls carries \<^verbatim>\<open>not a date\<close>, the comparator yields NaN for every pair with it,
  and the engine leaves the calls in the order of the mapping, with instants 5, 7, NaN, 1.
\<close>

theorem poll_history_unsorted_on_invalid_date:
  "map (\<lambda>call. example_dateParse (tc_createdAt call))
     (pollWorkflowRuns example_engineOrder example_dateParse True
        (PollOk (Some \<lparr> toolCalls = Some
                   [(''k1'', example_call ''list-events'' ''1970-01-01T00:00:00.005Z''),
                    (''k2'', example_call ''get-event'' ''1970-01-01T00:00:00.007Z''),
                    (''k3'', example_call ''create-event'' ''not a date''),
                    (''k4'', example_call ''get-freebusy'' ''1970-01-01T00:00:00.001Z'')] \<rparr>)
           None)
        [])
     = [Some 5, Some 7, None, Some 1]
   \<and> \<not> ascending (map (\<lambda>call. example_dateParse (tc_createdAt call))
     (pollWorkflowRuns example_engineOrder example_dateParse True
        (PollOk (Some \<lparr> toolCalls = Some
                   [(''k1'', example_call ''list-events'' ''1970-01-01T00:00:00.005Z''),
                    (''k2'', example_call ''get-event'' ''1970-01-01T00:00:00.007Z''),
                    (''k3'', example_call ''create-event'' ''not a date''),
                    (''k4'', example_call ''get-freebusy'' ''1970-01-01T00:00:00.001Z'')] \<rparr>)
           None)
        []))"
  by (simp add: pollWorkflowRuns_def sortByTime_def example_engineOrder_def
        example_dateParse_def example_call_def ascending_def)

text \<open>
  C9, as the code has it. When the poll succeeds and the selected run (the current one while
  a request is in flight, else the previous one) carries a tool-call mapping, the displayed
  history is replaced wholesale: the new history does not depend on the one displayed
  before. When every creation time among the values of the mapping is a valid date, the
  new history is those values stably sorted by creation time, and so in ascending order;
  with an invalid date among them the order is the engine's. Whenever the engine only
  reorders, or all those dates are valid, the new history holds exactly the values of the
  mapping.
\<close>

theorem poll_replaces_history:
  assumes "(if isLoading then current else previous) = Some run"
    and "toolCalls run = Some calls"
  shows "(let fresh = pollWorkflowRuns engineOrder dateParse isLoading (PollOk current previous)
                        history;
              time = (\<lambda>call. dateParse (tc_createdAt call))
          in fresh = pollWorkflowRuns engineOrder dateParse isLoading (PollOk current previous) []
             \<and> fresh = sortByTime engineOrder time (map snd calls)
             \<and> (None \<notin> time ` set (map snd calls) \<longrightarrow>
                  fresh = sort_key time (map snd calls) \<and> ascending (map time fresh))
             \<and> (reorders engineOrder \<or> None \<notin> time ` set (map snd calls) \<longrightarrow>
                  mset fresh = mset (map snd calls)))"
proof -
  let ?time = "\<lambda>call. dateParse (tc_createdAt call)"
  have fresh: "pollWorkflowRuns engineOrder dateParse isLoading (PollOk current previous) h
                 = sortByTime engineOrder ?time (map snd calls)" for h
    using assms by (simp add: pollWorkflowRuns_def)
  have valid: "sortByTime engineOrder ?time (map snd calls) = sort_key ?time (map snd calls)
               \<and> ascending (map ?time (sortByTime engineOrder ?time (map snd calls)))"
    if "None \<notin> ?time ` set (map snd calls)"
    using sortByTime_valid [OF that] ascending_sort_key [OF that] by simp
  have perm: "mset (sortByTime engineOrder ?time (map snd calls)) = mset (map snd calls)"
    if "reorders engineOrder \<or> None \<notin> ?time ` set (map snd calls)"
    using that by (rule mset_sortByTime)
  show ?thesis
    unfolding Let_def fresh using valid perm by blast
qed

theorem poll_replaces_history_witness:
  "pollWorkflowRuns example_engineOrder example_dateParse True
      (PollOk (Some \<lparr> toolCalls = Some
                 [(''k1'', example_call ''list-events'' ''1970-01-01T00:00:00.002Z''),
                  (''k2'', example_call ''get-event'' ''1970-01-01T00:00:00.001Z'')] \<rparr>) None)
      [example_call ''old'' ''1970-01-01T00:00:00.003Z'']
   = [example_call ''get-event'' ''1970-01-01T00:00:00.001Z'',
      example_call ''list-events'' ''1970-01-01T00:00:00.002Z'']"
  using poll_replaces_history
          [of True
              "Some \<lparr> toolCalls = Some
                 [(''k1'', example_call ''list-events'' ''1970-01-01T00:00:00.002Z''),
                  (''k2'', example_call ''get-event'' ''1970-01-01T00:00:00.001Z'')] \<rparr>"
              None
              "\<lparr> toolCalls = Some
                 [(''k1'', example_call ''list-events'' ''1970-01-01T00:00:00.002Z''),
                  (''k2'', example_call ''get-event'' ''1970-01-01T00:00:00.001Z'')] \<rparr>"
              "[(''k1'', example_call ''list-events'' ''1970-01-01T00:00:00.002Z''),
                (''k2'', example_call ''get-event'' ''1970-01-01T00:00:00.001Z'')]"
              example_engineOrder example_dateParse
              "[example_call ''old'' ''1970-01-01T00:00:00.003Z'']"]
  by (simp add: Let_def pollWorkflowRuns_def sortByTime_def example_dateParse_def
        example_call_def)

text \<open>
  C10. When the input is empty after trimming, or a send is already in flight, submitting
  returns the panel state it was given (messages, input, loading flag, tool-call history,
  error and the work-plan toggle alike) and issues no request.
\<close>

theorem submit_guard_no_change:
  assumes "trim (cp_input st) = [] \<or> cp_isLoading st"
  shows "handleSubmit userId dateNow clock st = (st, None)"
  using assms by (simp add: handleSubmit_def)

theorem submit_guard_no_change_witness:
  "trim ''  '' = []
   \<and> handleSubmit ''u1'' 1234 (\<lambda>i. 1234) (example_chat_panel ''  '' False)
     = (example_chat_panel ''  '' False, None)
   \<and> handleSubmit ''u1'' 1234 (\<lambda>i. 1234) (example_chat_panel ''hi'' True)
     = (example_chat_panel ''hi'' True, None)"
  using submit_guard_no_change [of "example_chat_panel ''  '' False" "''u1''" 1234 "\<lambda>i. 1234"]
        submit_guard_no_change [of "example_chat_panel ''hi'' True" "''u1''" 1234 "\<lambda>i. 1234"]
  by (simp add: example_chat_panel_def trim_def js_whitespace_def)


section \<open>Properties of the workplan panel\<close>














text \<open>
  C3, as the claim states it, fails: an edit of the draft of an entry that has no role gives
  the entry the role \<^verbatim>\<open>Lead\<close> at once, with no regeneration.
\<close>

theorem role_edit_changes_entry_role:
  "map wp_role (workplans (handleRoleChange ''e1'' ''Lead''
       (example_panel [example_entry ''e1'' None] [''e1'' \<mapsto> []])))
   \<noteq> map wp_role (workplans (example_panel [example_entry ''e1'' None] [''e1'' \<mapsto> []]))"
  by (simp add: handleRoleChange_def example_panel_def example_entry_def normaliseRole_def
        trim_def js_whitespace_def)

text \<open>
  C3, as the code has it. An edit sets the draft of that event identity to the text typed
  and leaves the other drafts alone; it also sets the role of every entry with that event
  identity to the normalised text, at once. The roles of the other entries, the other
  fields of every entry and the rest of the panel state are unchanged.
\<close>

theorem role_edit_sets_draft_and_role:
  "roleDrafts (handleRoleChange eventId v st) = (roleDrafts st)(eventId \<mapsto> v)
   \<and> map wp_role (workplans (handleRoleChange eventId v st)) =
       map (\<lambda>item. if ev_id (wp_event item) = eventId then normaliseRole (Some v) else wp_role item)
           (workplans st)
   \<and> map wp_event (workplans (handleRoleChange eventId v st)) = map wp_event (workplans st)
   \<and> map wp_status (workplans (handleRoleChange eventId v st)) = map wp_status (workplans st)
   \<and> map wp_steps (workplans (handleRoleChange eventId v st)) = map wp_steps (workplans st)
   \<and> map wp_lastGeneratedAt (workplans (handleRoleChange eventId v st))
       = map wp_lastGeneratedAt (workplans st)
   \<and> map wp_error (workplans (handleRoleChange eventId v st)) = map wp_error (workplans st)
   \<and> selectedId (handleRoleChange eventId v st) = selectedId st
   \<and> loadingList (handleRoleChange eventId v st) = loadingList st
   \<and> regenerating (handleRoleChange eventId v st) = regenerating st
   \<and> panel_error (handleRoleChange eventId v st) = panel_error st"
  by (simp add: handleRoleChange_def comp_def if_distrib cong: if_cong)

theorem role_edit_sets_draft_and_role_witness:
  "roleDrafts (handleRoleChange ''e1'' '' Lead ''
       (example_panel [example_entry ''e1'' None, example_entry ''e2'' (Some ''Host'')]
          [''e2'' \<mapsto> ''Host''])) ''e1'' = Some '' Lead ''
   \<and> roleDrafts (handleRoleChange ''e1'' '' Lead ''
       (example_panel [example_entry ''e1'' None, example_entry ''e2'' (Some ''Host'')]
          [''e2'' \<mapsto> ''Host''])) ''e2'' = Some ''Host''
   \<and> map wp_role (workplans (handleRoleChange ''e1'' '' Lead ''
       (example_panel [example_entry ''e1'' None, example_entry ''e2'' (Some ''Host'')]
          [''e2'' \<mapsto> ''Host'']))) = [Some ''Lead'', Some ''Host'']"
  using role_edit_sets_draft_and_role
          [of "''e1''" "'' Lead ''"
              "example_panel [example_entry ''e1'' None, example_entry ''e2'' (Some ''Host'')]
                 [''e2'' \<mapsto> ''Host'']"]
  by (simp add: example_panel_def example_entry_def normaliseRole_def trim_def js_whitespace_def)



text \<open>
  C8. When the fetch succeeds with no entry (no \<^verbatim>\<open>workplans\<close> property, an empty array or
  nothing but nulls) and the effect has not been cancelled, the displayed workplans are the
  mock set and the selected identity is the event identity of its first entry (none when
  the mock set is empty).
\<close>

theorem empty_fetch_shows_mocks:
  assumes "\<not> cancelled" and "fetchedItems data = []"
  shows "workplans (load_arrive mocks cancelled (FetchOk data) st) = mocks
       \<and> selectedId (load_arrive mocks cancelled (FetchOk data) st) =
           (case mocks of [] \<Rightarrow> None | first # _ \<Rightarrow> Some (ev_id (wp_event first)))"
  using assms by (simp add: load_arrive_def showMocks_def firstEventId_def)

theorem empty_fetch_shows_mocks_witness:
  "fetchedItems (Some [None]) = []
   \<and> workplans (load_arrive [example_entry ''mock-1'' None, example_entry ''mock-2'' None] False
               (FetchOk (Some [None])) (example_panel [] Map.empty))
     = [example_entry ''mock-1'' None, example_entry ''mock-2'' None]
   \<and> selectedId (load_arrive [example_entry ''mock-1'' None, example_entry ''mock-2'' None] False
               (FetchOk (Some [None])) (example_panel [] Map.empty)) = Some ''mock-1''"
  using empty_fetch_shows_mocks
          [of False "Some [None]" "[example_entry ''mock-1'' None, example_entry ''mock-2'' None]"
              "example_panel [] Map.empty"]
  by (simp add: fetchedItems_def List.map_filter_simps example_entry_def)

end
